theory Spec2Isabelle
  imports Main
begin

section \<open>Values of the host framework\<close>

text \<open>
  \<^verbatim>\<open>src/model/builder.py\<close> defines one class, \<^verbatim>\<open>ModelBuilder\<close>, whose methods
  build graph-mode TensorFlow objects. The framework objects are kept symbolic: a
  tensor, an operation or a numpy array is a term that records how it was built, and
  a framework function whose result depends on data the source never sees is a
  parameter (record \<open>framework\<close> below).

  \<^verbatim>\<open>tf.estimator.ModeKeys\<close> holds three strings; a mode is any string, so that the
  unrecognised ones are inputs too.
\<close>

type_synonym mode = string

definition TRAIN :: mode where
  "TRAIN = ''train''"

definition EVAL :: mode where
  "EVAL = ''eval''"

definition PREDICT :: mode where
  "PREDICT = ''infer''"

datatype error =
    NotImplementedError string
  | ValueError string
  | AttributeError string
  | UnboundLocalError string
  | KeyError string
  | TypeError string
  | OverflowError string
  | OutOfRangeError string

text \<open>
  \<^verbatim>\<open>tf.data.Dataset\<close>: a source supplied by the subclass, and the three
  transformations the source applies (\<^verbatim>\<open>shuffle(buffer_size)\<close>, \<^verbatim>\<open>repeat(count)\<close>,
  \<^verbatim>\<open>batch(batch_size)\<close>); the innermost constructor was applied first.
\<close>

datatype dataset =
    Source string
  | Shuffle int dataset
  | Repeat "int option" dataset
  | Batch int dataset

text \<open>
  Python values handled by the builder: \<^verbatim>\<open>None\<close>, an opaque tensor / op / array made
  by subclass or framework code, the global step tensor, \<^verbatim>\<open>a + b\<close> on tensors,
  \<^verbatim>\<open>tf.add_n\<close>, a tuple or list, an operation with its data inputs and its control
  inputs, and the \<open>i\<close>-th tensor of the element that a dataset's iterator yields.
\<close>

datatype pyval =
    PNone
  | Sym string
  | GlobalStep
  | TfAdd pyval pyval
  | TfAddN "pyval list"
  | Tuple "pyval list"
  | Op string "pyval list" "pyval list"
  | Component dataset nat

text \<open>
  The default graph, as far as the source reads or writes it: the two collections it
  gets, the summaries it adds, whether the global step exists, and the control
  dependencies of the enclosing \<^verbatim>\<open>tf.control_dependencies\<close> blocks.
\<close>

record graph =
  REGULARIZATION_LOSSES :: "pyval list"
  UPDATE_OPS :: "pyval list"
  summaries :: "(string \<times> pyval \<times> string) list"
  has_global_step :: bool
  control_deps :: "pyval list"

definition empty_graph :: graph where
  "empty_graph = \<lparr>REGULARIZATION_LOSSES = [], UPDATE_OPS = [], summaries = [],
     has_global_step = False, control_deps = []\<rparr>"

text \<open>
  A call of an overridable method is recorded in a trace, in order, with its
  arguments. The source keeps no such log: it is what makes "is invoked" and
  "before" statable. Overridable methods see the graph only, never the trace.
\<close>

datatype event =
    Call_get_inference pyval mode
  | Call_get_predictions pyval
  | Call_get_inference_loss pyval pyval
  | Call_get_eval_metric_ops pyval pyval
  | Call_get_train_op pyval pyval
  | Call_get_train_dataset
  | Call_get_eval_dataset
  | Call_get_predict_dataset
  | Call_vis_example_data pyval pyval
  | Call_vis_prediction_data pyval pyval pyval
  | Session_run "pyval list"
  | Saver_restore "string option"

record state =
  default_graph :: graph
  trace :: "event list"

type_synonym 'a callback = "graph \<Rightarrow> (error + 'a) \<times> graph"

type_synonym 'a run = "state \<Rightarrow> (error + 'a) \<times> state"

definition return :: "'a \<Rightarrow> 'a run" where
  "return x s = (Inr x, s)"

definition raise :: "error \<Rightarrow> 'a run" where
  "raise e s = (Inl e, s)"

definition bind :: "'a run \<Rightarrow> ('a \<Rightarrow> 'b run) \<Rightarrow> 'b run" where
  "bind m f s = (case m s of (Inl e, s') \<Rightarrow> (Inl e, s') | (Inr x, s') \<Rightarrow> f x s')"

definition lift :: "error + 'a \<Rightarrow> 'a run" where
  "lift r s = (r, s)"

definition call :: "event \<Rightarrow> 'a callback \<Rightarrow> 'a run" where
  "call ev cb s =
     (case cb (default_graph s) of
        (r, g') \<Rightarrow> (r, \<lparr>default_graph = g', trace = trace s @ [ev]\<rparr>))"

section \<open>Framework functions taken as parameters\<close>

text \<open>
  \<^verbatim>\<open>spec_kwargs\<close> is a dict with at most five keys; a key that was never stored is
  \<open>None\<close>. An estimator spec is an object with the same five attributes; which
  keyword arguments make one is the framework's business (\<open>EstimatorSpec\<close> below).
\<close>

record spec_kwargs =
  kw_mode :: mode
  kw_predictions :: pyval
  kw_loss :: "pyval option"
  kw_eval_metric_ops :: "(string \<times> pyval) list option"
  kw_train_op :: "pyval option"

datatype estimator_spec = SpecObject spec_kwargs

text \<open>
  \<^verbatim>\<open>tf.estimator.Estimator(model_fn, model_dir, config=config)\<close>: the constructor's
  three arguments.
\<close>

record estimator =
  model_fn :: "pyval \<Rightarrow> pyval \<Rightarrow> mode \<Rightarrow> pyval \<Rightarrow> estimator_spec run"
  est_model_dir :: string
  est_config :: pyval

text \<open>
  What the source asks of the framework and of its own module without fixing the
  answer: the directory of \<^verbatim>\<open>builder.py\<close>, the element a one-shot iterator yields
  for a dataset, the constructor \<^verbatim>\<open>tf.estimator.EstimatorSpec(**spec_kwargs)\<close>, which
  checks its arguments and raises when it rejects them, the three methods of an
  estimator (each takes the input function and the keyword arguments), and the saver
  and monitored session, whose state is \<open>'s\<close>.
\<close>

record 's framework =
  file_dirname :: string
  iterator_get_next :: "dataset \<Rightarrow> pyval"
  EstimatorSpec :: "spec_kwargs \<Rightarrow> error + estimator_spec"
  Estimator_train ::
    "estimator \<Rightarrow> (pyval \<times> pyval) run \<Rightarrow> (string \<times> pyval) list \<Rightarrow> error + pyval"
  Estimator_predict ::
    "estimator \<Rightarrow> (pyval \<times> pyval) run \<Rightarrow> (string \<times> pyval) list \<Rightarrow> error + pyval"
  Estimator_evaluate ::
    "estimator \<Rightarrow> (pyval \<times> pyval) run \<Rightarrow> (string \<times> pyval) list \<Rightarrow> error + pyval"
  Saver :: "graph \<Rightarrow> error + unit"
  MonitoredSession :: "graph \<Rightarrow> error + 's"
  should_stop :: "'s \<Rightarrow> bool"
  session_run :: "pyval list \<Rightarrow> 's \<Rightarrow> (error + pyval) \<times> 's"
  session_exit_suppresses :: "error \<Rightarrow> bool"
  latest_checkpoint :: "string \<Rightarrow> string option"
  saver_restore :: "string option \<Rightarrow> 's \<Rightarrow> (error + unit) \<times> 's"

text \<open>\<^verbatim>\<open>os.path.join\<close> of two components, as \<^verbatim>\<open>posixpath\<close> computes it.\<close>

definition os_path_join :: "string \<Rightarrow> string \<Rightarrow> string" where
  "os_path_join a b =
     (if b \<noteq> [] \<and> hd b = CHR ''/'' then b
      else if a = [] \<or> last a = CHR ''/'' then a @ b
      else a @ ''/'' @ b)"

definition estimator_dir :: "'s framework \<Rightarrow> string" where
  "estimator_dir fw = os_path_join (file_dirname fw) ''estimator''"

section \<open>The builder\<close>

text \<open>
  An instance of \<^verbatim>\<open>ModelBuilder\<close> or of a subclass: the two attributes set by
  \<^verbatim>\<open>__init__\<close> and the methods that the class docstring asks or encourages
  subclasses to implement. Every such method may raise and may change the graph.
\<close>

record builder =
  model_id :: string
  params :: "string \<rightharpoonup> int"
  get_inference :: "pyval \<Rightarrow> mode \<Rightarrow> pyval callback"
  get_inference_loss :: "pyval \<Rightarrow> pyval \<Rightarrow> pyval callback"
  get_train_op :: "pyval \<Rightarrow> pyval \<Rightarrow> pyval callback"
  get_train_dataset :: "dataset callback"
  get_eval_dataset :: "dataset callback"
  get_predict_dataset :: "dataset callback"
  vis_example_data :: "pyval \<Rightarrow> pyval \<Rightarrow> error + unit"
  vis_prediction_data :: "pyval \<Rightarrow> pyval \<Rightarrow> pyval \<Rightarrow> error + unit"
  get_predictions :: "pyval \<Rightarrow> pyval callback"
  get_eval_metric_ops :: "pyval \<Rightarrow> pyval \<Rightarrow> ((string \<times> pyval) list) callback"

text \<open>The base class itself: the bodies of lines 52 to 128.\<close>

definition abstract_method :: "'a callback" where
  "abstract_method g = (Inl (NotImplementedError ''Abstract method''), g)"

definition ModelBuilder :: "string \<Rightarrow> (string \<rightharpoonup> int) \<Rightarrow> builder" where
  "ModelBuilder mid ps =
     \<lparr>model_id = mid,
      params = ps,
      get_inference = (\<lambda>features mode. abstract_method),
      get_inference_loss = (\<lambda>inference labels. abstract_method),
      get_train_op = (\<lambda>loss step. abstract_method),
      get_train_dataset = abstract_method,
      get_eval_dataset = abstract_method,
      get_predict_dataset = abstract_method,
      vis_example_data = (\<lambda>feature_data label_data. Inl (NotImplementedError [])),
      vis_prediction_data =
        (\<lambda>prediction_data feature_data label_data. Inl (NotImplementedError [])),
      get_predictions = (\<lambda>inferences g. (Inr inferences, g)),
      get_eval_metric_ops = (\<lambda>predictions labels g. (Inr [], g))\<rparr>"

definition batch_size :: "builder \<Rightarrow> error + int" where
  "batch_size self =
     (case params self ''batch_size'' of
        None \<Rightarrow> Inl (KeyError ''batch_size'')
      | Some n \<Rightarrow> Inr n)"

definition model_dir :: "'s framework \<Rightarrow> builder \<Rightarrow> string" where
  "model_dir fw self = os_path_join (estimator_dir fw) (model_id self)"

subsection \<open>Total loss\<close>

definition summary_scalar :: "string \<Rightarrow> pyval \<Rightarrow> string \<Rightarrow> graph \<Rightarrow> graph" where
  "summary_scalar name tensor family g = g\<lparr>summaries := summaries g @ [(name, tensor, family)]\<rparr>"

definition get_total_loss :: "pyval \<Rightarrow> graph \<Rightarrow> pyval \<times> graph" where
  "get_total_loss inference_loss g =
     (let reg_losses = REGULARIZATION_LOSSES g in
      if length reg_losses > 0 then
        let g1 = summary_scalar ''inference_loss'' inference_loss ''sublosses'' g;
            reg_loss = TfAddN reg_losses;
            g2 = summary_scalar ''reg_loss'' reg_loss ''sublosses'' g1;
            loss = TfAdd inference_loss reg_loss
        in (loss, g2)
      else
        let loss = inference_loss in (loss, g))"

subsection \<open>Estimator spec\<close>

definition in_graph :: "(graph \<Rightarrow> 'a \<times> graph) \<Rightarrow> 'a run" where
  "in_graph f s = (case f (default_graph s) of (x, g') \<Rightarrow> (Inr x, s\<lparr>default_graph := g'\<rparr>))"

definition get_or_create_global_step :: "graph \<Rightarrow> pyval \<times> graph" where
  "get_or_create_global_step g = (GlobalStep, g\<lparr>has_global_step := True\<rparr>)"

definition get_collection_UPDATE_OPS :: "graph \<Rightarrow> pyval list \<times> graph" where
  "get_collection_UPDATE_OPS g = (UPDATE_OPS g, g)"

text \<open>
  \<^verbatim>\<open>with tf.control_dependencies(ops): body\<close>: inside the block the graph's control
  dependencies are those of the enclosing blocks and \<open>ops\<close>; they are put back when the
  block is left, by a return or by an exception.
\<close>

definition control_dependencies :: "pyval list \<Rightarrow> 'a run \<Rightarrow> 'a run" where
  "control_dependencies ops body s =
     (let outer = control_deps (default_graph s);
          inside = s\<lparr>default_graph := (default_graph s)\<lparr>control_deps := outer @ ops\<rparr>\<rparr>
      in case body inside of
           (r, s') \<Rightarrow> (r, s'\<lparr>default_graph := (default_graph s')\<lparr>control_deps := outer\<rparr>\<rparr>))"

definition get_estimator_spec ::
  "'s framework \<Rightarrow> builder \<Rightarrow> pyval \<Rightarrow> pyval \<Rightarrow> mode \<Rightarrow> pyval \<Rightarrow> estimator_spec run" where
  "get_estimator_spec fw self features labels mode config =
     bind (call (Call_get_inference features mode) (get_inference self features mode))
       (\<lambda>inference.
     bind (call (Call_get_predictions inference) (get_predictions self inference))
       (\<lambda>predictions.
     let spec_kwargs = \<lparr>kw_mode = mode, kw_predictions = predictions, kw_loss = None,
           kw_eval_metric_ops = None, kw_train_op = None\<rparr> in
     if mode = PREDICT then lift (EstimatorSpec fw spec_kwargs)
     else
     bind (call (Call_get_inference_loss inference labels)
             (get_inference_loss self inference labels))
       (\<lambda>inference_loss.
     bind (in_graph (get_total_loss inference_loss))
       (\<lambda>loss.
     let spec_kwargs = spec_kwargs\<lparr>kw_loss := Some loss\<rparr> in
     if mode = EVAL then
       bind (call (Call_get_eval_metric_ops predictions labels)
               (get_eval_metric_ops self predictions labels))
         (\<lambda>metric_ops.
       lift (EstimatorSpec fw (spec_kwargs\<lparr>kw_eval_metric_ops := Some metric_ops\<rparr>)))
     else
     bind (in_graph get_or_create_global_step)
       (\<lambda>step.
     bind (in_graph get_collection_UPDATE_OPS)
       (\<lambda>update_ops.
     bind (control_dependencies update_ops
             (call (Call_get_train_op loss step) (get_train_op self loss step)))
       (\<lambda>train_op.
     let spec_kwargs = spec_kwargs\<lparr>kw_train_op := Some train_op\<rparr> in
     if mode = TRAIN then lift (EstimatorSpec fw spec_kwargs)
     else raise (ValueError (''Unrecognized mode '' @ mode)))))))))"

subsection \<open>Inputs\<close>

text \<open>
  \<^verbatim>\<open>features, labels = v\<close>: a sequence of two elements is taken apart, one of another
  length raises ValueError, and \<^verbatim>\<open>None\<close> or a graph-mode tensor is not iterable.
\<close>

fun unpack2 :: "pyval \<Rightarrow> error + pyval \<times> pyval" where
  "unpack2 (Tuple [a, b]) = Inr (a, b)"
| "unpack2 (Tuple xs) = Inl (ValueError ''unpack'')"
| "unpack2 v = Inl (TypeError ''unpack'')"

text \<open>
  \<^verbatim>\<open>shuffle\<close>, \<^verbatim>\<open>repeat\<close> and \<^verbatim>\<open>batch\<close> turn their argument into a 64-bit integer
  tensor when they are applied: a Python integer outside that range raises
  OverflowError there, and \<^verbatim>\<open>repeat(count=None)\<close> repeats for ever. A size that is in
  range but not positive is refused only when the iterator runs.
\<close>

definition int64 :: "int \<Rightarrow> bool" where
  "int64 n \<longleftrightarrow> - (2 ^ 63) \<le> n \<and> n < 2 ^ 63"

definition dataset_shuffle :: "int \<Rightarrow> dataset \<Rightarrow> error + dataset" where
  "dataset_shuffle buffer_size dataset =
     (if int64 buffer_size then Inr (Shuffle buffer_size dataset)
      else Inl (OverflowError ''buffer_size''))"

definition dataset_repeat :: "int option \<Rightarrow> dataset \<Rightarrow> error + dataset" where
  "dataset_repeat count dataset =
     (case count of
        None \<Rightarrow> Inr (Repeat None dataset)
      | Some c \<Rightarrow> if int64 c then Inr (Repeat (Some c) dataset) else Inl (OverflowError ''count''))"

definition dataset_batch :: "int \<Rightarrow> dataset \<Rightarrow> error + dataset" where
  "dataset_batch n dataset =
     (if int64 n then Inr (Batch n dataset) else Inl (OverflowError ''batch_size''))"

definition get_train_inputs ::
  "'s framework \<Rightarrow> builder \<Rightarrow> bool \<Rightarrow> int option \<Rightarrow> int \<Rightarrow> (pyval \<times> pyval) run" where
  "get_train_inputs fw self shuffle repeat_count shuffle_buffer_size =
     bind (call Call_get_train_dataset (get_train_dataset self))
       (\<lambda>dataset.
     bind (lift (dataset_shuffle shuffle_buffer_size dataset))
       (\<lambda>dataset.
     bind (lift (dataset_repeat repeat_count dataset))
       (\<lambda>dataset.
     bind (lift (batch_size self))
       (\<lambda>n.
     bind (lift (dataset_batch n dataset))
       (\<lambda>dataset.
     bind (lift (unpack2 (iterator_get_next fw dataset)))
       (\<lambda>(features, labels).
     return (features, labels)))))))"

text \<open>
  The signature is \<^verbatim>\<open>get_train_inputs(self, shuffle=True, repeat_count=None,
  shuffle_buffer_size=10000)\<close>; every call in the file passes no argument. The body
  never reads \<^verbatim>\<open>shuffle\<close>.
\<close>

definition get_train_inputs_defaults :: "'s framework \<Rightarrow> builder \<Rightarrow> (pyval \<times> pyval) run" where
  "get_train_inputs_defaults fw self = get_train_inputs fw self True None 10000"

definition get_eval_inputs :: "'s framework \<Rightarrow> builder \<Rightarrow> (pyval \<times> pyval) run" where
  "get_eval_inputs fw self =
     bind (call Call_get_eval_dataset (get_eval_dataset self))
       (\<lambda>dataset.
     bind (lift (batch_size self))
       (\<lambda>n.
     bind (lift (dataset_batch n dataset))
       (\<lambda>dataset.
     bind (lift (unpack2 (iterator_get_next fw dataset)))
       (\<lambda>(features, labels).
     return (features, labels)))))"

definition get_predict_inputs :: "'s framework \<Rightarrow> builder \<Rightarrow> (pyval \<times> pyval) run" where
  "get_predict_inputs fw self =
     bind (call Call_get_predict_dataset (get_predict_dataset self))
       (\<lambda>dataset.
     bind (lift (batch_size self))
       (\<lambda>n.
     bind (lift (dataset_batch n dataset))
       (\<lambda>dataset.
     let features = iterator_get_next fw dataset
     in return (features, PNone))))"

text \<open>
  Lines 226 and 228 read \<^verbatim>\<open>tf.esitmator.ModeKeys\<close>. The module \<^verbatim>\<open>tensorflow\<close> has no
  attribute of that name, so evaluating either condition raises AttributeError
  before any comparison is made.
\<close>

definition tf_esitmator_ModeKeys :: "string \<Rightarrow> error + mode" where
  "tf_esitmator_ModeKeys key = Inl (AttributeError ''esitmator'')"

text \<open>A method that reaches its end returns \<^verbatim>\<open>None\<close>: the result \<open>None\<close> here.\<close>

definition get_inputs ::
  "'s framework \<Rightarrow> builder \<Rightarrow> mode \<Rightarrow> (pyval \<times> pyval) option run" where
  "get_inputs fw self mode =
     (if mode = TRAIN then
        bind (get_train_inputs_defaults fw self) (\<lambda>r. return (Some r))
      else
        bind (lift (tf_esitmator_ModeKeys ''EVAL''))
          (\<lambda>k.
        if mode = k then bind (get_eval_inputs fw self) (\<lambda>r. return (Some r))
        else
          bind (lift (tf_esitmator_ModeKeys ''INFER''))
            (\<lambda>k.
          if mode = k then bind (get_predict_inputs fw self) (\<lambda>r. return (Some r))
          else return None)))"

subsection \<open>Estimator wrappers\<close>

definition get_estimator :: "'s framework \<Rightarrow> builder \<Rightarrow> pyval \<Rightarrow> estimator" where
  "get_estimator fw self config =
     \<lparr>model_fn = get_estimator_spec fw self, est_model_dir = model_dir fw self,
      est_config = config\<rparr>"

definition train ::
  "'s framework \<Rightarrow> builder \<Rightarrow> pyval \<Rightarrow> (string \<times> pyval) list \<Rightarrow> error + pyval" where
  "train fw self config train_kwargs =
     (let estimator = get_estimator fw self config in
      case Estimator_train fw estimator (get_train_inputs_defaults fw self)
             train_kwargs of
        Inl e \<Rightarrow> Inl e
      | Inr r \<Rightarrow> Inr PNone)"

definition predict ::
  "'s framework \<Rightarrow> builder \<Rightarrow> pyval \<Rightarrow> (string \<times> pyval) list \<Rightarrow> error + pyval" where
  "predict fw self config predict_kwargs =
     (let estimator = get_estimator fw self config in
      Estimator_predict fw estimator (get_predict_inputs fw self) predict_kwargs)"

definition eval ::
  "'s framework \<Rightarrow> builder \<Rightarrow> pyval \<Rightarrow> (string \<times> pyval) list \<Rightarrow> error + pyval" where
  "eval fw self config eval_kwargs =
     (let estimator = get_estimator fw self config in
      Estimator_evaluate fw estimator (get_eval_inputs fw self) eval_kwargs)"

subsection \<open>Visualisation loops\<close>

text \<open>
  The \<^verbatim>\<open>if\<close>/\<^verbatim>\<open>elif\<close> that opens both visualisation methods binds \<^verbatim>\<open>features\<close> and
  \<^verbatim>\<open>labels\<close> for two modes and has no \<^verbatim>\<open>else\<close>: for any other mode the two
  locals stay unbound (\<open>None\<close> here), and reading them raises.
\<close>

definition vis_bind_inputs ::
  "'s framework \<Rightarrow> builder \<Rightarrow> mode \<Rightarrow> (pyval \<times> pyval) option run" where
  "vis_bind_inputs fw self mode =
     (if mode = PREDICT then
        bind (get_predict_inputs fw self) (\<lambda>(features, labels). return (Some (features, labels)))
      else if mode = TRAIN then
        bind (get_train_inputs_defaults fw self)
          (\<lambda>(features, labels). return (Some (features, labels)))
      else return None)"

definition local_variables :: "(pyval \<times> pyval) option \<Rightarrow> error + pyval \<times> pyval" where
  "local_variables inputs =
     (case inputs of
        None \<Rightarrow> Inl (UnboundLocalError ''features'')
      | Some (features, labels) \<Rightarrow> Inr (features, labels))"

text \<open>
  Leaving \<^verbatim>\<open>with tf.train.MonitoredSession() as sess\<close>: the session's exit handler
  decides whether an exception raised in the block goes on.
\<close>

definition session_exit :: "'s framework \<Rightarrow> error + unit \<Rightarrow> error + unit" where
  "session_exit fw r =
     (case r of
        Inl e \<Rightarrow> if session_exit_suppresses fw e then Inr () else Inl e
      | Inr u \<Rightarrow> Inr u)"

text \<open>
  \<^verbatim>\<open>sess.run(fetches)\<close>: a fetch that is \<^verbatim>\<open>None\<close> is refused with TypeError before
  anything runs; what the session computes for the other fetch lists is the
  framework's.
\<close>

definition sess_run :: "'s framework \<Rightarrow> pyval list \<Rightarrow> 's \<Rightarrow> (error + pyval) \<times> 's" where
  "sess_run fw fetches sess =
     (if PNone \<in> set fetches then (Inl (TypeError ''Fetch argument None''), sess)
      else session_run fw fetches sess)"

text \<open>
  \<^verbatim>\<open>while not sess.should_stop()\<close> of \<^verbatim>\<open>vis_inputs\<close>. The loop ends when the session
  says so or when a statement of the body raises; otherwise it goes on, and a session
  that never stops gives no result (\<open>None\<close>).
\<close>

partial_function (option) vis_inputs_loop ::
  "'s framework \<Rightarrow> builder \<Rightarrow> (pyval \<times> pyval) option \<Rightarrow> 's \<Rightarrow> event list \<Rightarrow>
     ((error + unit) \<times> 's \<times> event list) option" where
  "vis_inputs_loop fw self inputs sess tr =
     (if should_stop fw sess then Some (Inr (), sess, tr)
      else
        case local_variables inputs of
          Inl e \<Rightarrow> Some (Inl e, sess, tr)
        | Inr (features, labels) \<Rightarrow>
            (case sess_run fw [features, labels] sess of
               (Inl e, sess') \<Rightarrow> Some (Inl e, sess', tr @ [Session_run [features, labels]])
             | (Inr data, sess') \<Rightarrow>
                 (case unpack2 data of
                    Inl e \<Rightarrow> Some (Inl e, sess', tr @ [Session_run [features, labels]])
                  | Inr (feature_data, label_data) \<Rightarrow>
                      (case vis_example_data self feature_data label_data of
                         Inl e \<Rightarrow>
                           Some (Inl e, sess',
                             tr @ [Session_run [features, labels],
                                   Call_vis_example_data feature_data label_data])
                       | Inr u \<Rightarrow>
                           vis_inputs_loop fw self inputs sess'
                             (tr @ [Session_run [features, labels],
                                    Call_vis_example_data feature_data label_data])))))"

text \<open>
  \<^verbatim>\<open>graph = tf.Graph()\<close> and \<^verbatim>\<open>with graph.as_default()\<close>: the body works on a new,
  empty default graph, and the caller's graph is the default again afterwards.
\<close>

definition vis_inputs ::
  "'s framework \<Rightarrow> builder \<Rightarrow> mode \<Rightarrow> state \<Rightarrow> ((error + unit) \<times> state) option" where
  "vis_inputs fw self mode s =
     (let outer = default_graph s in
      case vis_bind_inputs fw self mode (s\<lparr>default_graph := empty_graph\<rparr>) of
        (Inl e, s1) \<Rightarrow> Some (Inl e, s1\<lparr>default_graph := outer\<rparr>)
      | (Inr inputs, s1) \<Rightarrow>
          (case MonitoredSession fw (default_graph s1) of
             Inl e \<Rightarrow> Some (Inl e, s1\<lparr>default_graph := outer\<rparr>)
           | Inr sess \<Rightarrow>
               (case vis_inputs_loop fw self inputs sess (trace s1) of
                  None \<Rightarrow> None
                | Some (r, sess', tr) \<Rightarrow>
                    Some (session_exit fw r, \<lparr>default_graph = outer, trace = tr\<rparr>))))"

text \<open>
  \<^verbatim>\<open>self.vis_prediction_data(*data)\<close>: the callback takes three positional arguments,
  so \<^verbatim>\<open>data\<close> has to be a sequence of three.
\<close>

fun star3 :: "pyval \<Rightarrow> error + pyval \<times> pyval \<times> pyval" where
  "star3 (Tuple [a, b, c]) = Inr (a, b, c)"
| "star3 v = Inl (TypeError ''vis_prediction_data'')"

partial_function (option) vis_predictions_loop ::
  "'s framework \<Rightarrow> builder \<Rightarrow> pyval \<Rightarrow> pyval \<Rightarrow> pyval \<Rightarrow> 's \<Rightarrow> event list \<Rightarrow>
     ((error + unit) \<times> 's \<times> event list) option" where
  "vis_predictions_loop fw self predictions features labels sess tr =
     (if should_stop fw sess then Some (Inr (), sess, tr)
      else
        case sess_run fw [predictions, features, labels] sess of
          (Inl e, sess') \<Rightarrow>
            Some (Inl e, sess', tr @ [Session_run [predictions, features, labels]])
        | (Inr data, sess') \<Rightarrow>
            (case star3 data of
               Inl e \<Rightarrow> Some (Inl e, sess', tr @ [Session_run [predictions, features, labels]])
             | Inr (prediction_data, feature_data, label_data) \<Rightarrow>
                 (case vis_prediction_data self prediction_data feature_data label_data of
                    Inl e \<Rightarrow>
                      Some (Inl e, sess',
                        tr @ [Session_run [predictions, features, labels],
                              Call_vis_prediction_data prediction_data feature_data label_data])
                  | Inr u \<Rightarrow>
                      vis_predictions_loop fw self predictions features labels sess'
                        (tr @ [Session_run [predictions, features, labels],
                               Call_vis_prediction_data prediction_data feature_data
                                 label_data]))))"

definition spec_predictions :: "estimator_spec \<Rightarrow> pyval" where
  "spec_predictions spec = (case spec of SpecObject kwargs \<Rightarrow> kw_predictions kwargs)"

definition vis_predictions ::
  "'s framework \<Rightarrow> builder \<Rightarrow> mode \<Rightarrow> state \<Rightarrow> ((error + unit) \<times> state) option" where
  "vis_predictions fw self mode s =
     (let outer = default_graph s in
      case bind (vis_bind_inputs fw self mode)
             (\<lambda>inputs.
           bind (lift (local_variables inputs))
             (\<lambda>(features, labels).
           bind (get_estimator_spec fw self features labels PREDICT PNone)
             (\<lambda>spec.
           let predictions = spec_predictions spec in
           bind (\<lambda>s'. (Saver fw (default_graph s'), s'))
             (\<lambda>saver.
           return (predictions, features, labels)))))
             (s\<lparr>default_graph := empty_graph\<rparr>) of
        (Inl e, s1) \<Rightarrow> Some (Inl e, s1\<lparr>default_graph := outer\<rparr>)
      | (Inr (predictions, features, labels), s1) \<Rightarrow>
          (case MonitoredSession fw (default_graph s1) of
             Inl e \<Rightarrow> Some (Inl e, s1\<lparr>default_graph := outer\<rparr>)
           | Inr sess \<Rightarrow>
               (let checkpoint = latest_checkpoint fw (model_dir fw self);
                    tr = trace s1 @ [Saver_restore checkpoint]
                in case saver_restore fw checkpoint sess of
                     (Inl e, sess') \<Rightarrow>
                       Some (session_exit fw (Inl e), \<lparr>default_graph = outer, trace = tr\<rparr>)
                   | (Inr u, sess') \<Rightarrow>
                       (case vis_predictions_loop fw self predictions features labels sess' tr of
                          None \<Rightarrow> None
                        | Some (r, sess'', tr') \<Rightarrow>
                            Some (session_exit fw r,
                              \<lparr>default_graph = outer, trace = tr'\<rparr>)))))"

section \<open>Dependencies of an operation\<close>


section \<open>Concrete subclasses and a concrete framework\<close>

text \<open>
  A small subclass in the style the class docstring asks for. Its inference adds one
  regularisation loss and one update op to the graph; its train op is made inside
  \<open>get_train_op\<close> from the loss and the step, and takes the control dependencies in
  force there that are not already among its inputs. It keeps the base class's
  \<^verbatim>\<open>get_predictions\<close> and \<^verbatim>\<open>get_eval_metric_ops\<close>.
\<close>

definition example_builder :: builder where
  "example_builder =
     \<lparr>model_id = ''mnist'',
      params = [''batch_size'' \<mapsto> 32],
      get_inference = (\<lambda>features mode g.
        (Inr (Op ''logits'' [features] []),
         g\<lparr>REGULARIZATION_LOSSES := REGULARIZATION_LOSSES g @ [Sym ''l2''],
           UPDATE_OPS := UPDATE_OPS g @ [Sym ''batch_norm_update'']\<rparr>)),
      get_inference_loss = (\<lambda>inference labels g.
        (Inr (Op ''cross_entropy'' [inference, labels] []), g)),
      get_train_op = (\<lambda>loss step g.
        (Inr (Op ''minimize'' [loss, step]
                (filter (\<lambda>c. c \<notin> set [loss, step]) (control_deps g))), g)),
      get_train_dataset = (\<lambda>g. (Inr (Source ''train''), g)),
      get_eval_dataset = (\<lambda>g. (Inr (Source ''eval''), g)),
      get_predict_dataset = (\<lambda>g. (Inr (Source ''predict''), g)),
      vis_example_data = (\<lambda>feature_data label_data. Inr ()),
      vis_prediction_data = (\<lambda>prediction_data feature_data label_data. Inr ()),
      get_predictions = (\<lambda>inferences g. (Inr inferences, g)),
      get_eval_metric_ops = (\<lambda>predictions labels g. (Inr [], g))\<rparr>"


text \<open>
  A constructor of estimator specs with the checks of the framework that can be made
  on symbolic values: a train op is needed in TRAIN mode, a loss in TRAIN and EVAL
  mode, predictions in PREDICT mode.
\<close>

definition example_EstimatorSpec :: "spec_kwargs \<Rightarrow> error + estimator_spec" where
  "example_EstimatorSpec kwargs =
     (if kw_mode kwargs = TRAIN \<and> (kw_train_op kwargs = None \<or> kw_train_op kwargs = Some PNone)
      then Inl (ValueError ''Missing train_op.'')
      else if (kw_mode kwargs = TRAIN \<or> kw_mode kwargs = EVAL)
              \<and> (kw_loss kwargs = None \<or> kw_loss kwargs = Some PNone)
      then Inl (ValueError ''Missing loss.'')
      else if kw_mode kwargs = PREDICT \<and> kw_predictions kwargs = PNone
      then Inl (ValueError ''Missing predictions.'')
      else Inr (SpecObject kwargs))"

text \<open>
  A framework whose iterator yields a pair of tensors of its dataset, and whose
  session is a counter of the batches it has run and asks to stop after two of them.
\<close>

definition example_framework :: "nat framework" where
  "example_framework =
     \<lparr>file_dirname = ''/repo/model'',
      iterator_get_next = (\<lambda>dataset. Tuple [Component dataset 0, Component dataset 1]),
      EstimatorSpec = example_EstimatorSpec,
      Estimator_train = (\<lambda>estimator input_fn kwargs. Inr (Sym ''estimator'')),
      Estimator_predict = (\<lambda>estimator input_fn kwargs. Inr (Sym ''generator'')),
      Estimator_evaluate = (\<lambda>estimator input_fn kwargs. Inr (Sym ''metrics'')),
      Saver = (\<lambda>g. Inr ()),
      MonitoredSession = (\<lambda>g. Inr 0),
      should_stop = (\<lambda>k. 2 \<le> k),
      session_run = (\<lambda>fetches k. (Inr (Tuple fetches), Suc k)),
      session_exit_suppresses = (\<lambda>e. case e of OutOfRangeError m \<Rightarrow> True | _ \<Rightarrow> False),
      latest_checkpoint = (\<lambda>dir. Some (dir @ ''/model.ckpt-100'')),
      saver_restore = (\<lambda>checkpoint k.
        (case checkpoint of None \<Rightarrow> Inl (ValueError ''restore'') | Some path \<Rightarrow> Inr (), k))\<rparr>"

definition example_state :: state where
  "example_state = \<lparr>default_graph = empty_graph, trace = []\<rparr>"

section \<open>How the state is threaded\<close>

text \<open>Each lemma runs one step of a method body.\<close>

lemma bind_call:
  "bind (call ev cb) f s =
     (case cb (default_graph s) of
        (Inl e, g') \<Rightarrow> (Inl e, \<lparr>default_graph = g', trace = trace s @ [ev]\<rparr>)
      | (Inr x, g') \<Rightarrow> f x \<lparr>default_graph = g', trace = trace s @ [ev]\<rparr>)"
  by (simp add: bind_def call_def split: prod.splits sum.splits)

lemma bind_in_graph:
  "bind (in_graph h) f s =
     (case h (default_graph s) of (x, g') \<Rightarrow> f x (s\<lparr>default_graph := g'\<rparr>))"
  by (simp add: bind_def in_graph_def split: prod.splits)

lemma bind_control_dependencies_call:
  "bind (control_dependencies ops (call ev cb)) f s =
     (case cb ((default_graph s)\<lparr>control_deps := control_deps (default_graph s) @ ops\<rparr>) of
        (Inl e, g') \<Rightarrow>
          (Inl e, \<lparr>default_graph = g'\<lparr>control_deps := control_deps (default_graph s)\<rparr>,
                   trace = trace s @ [ev]\<rparr>)
      | (Inr x, g') \<Rightarrow>
          f x \<lparr>default_graph = g'\<lparr>control_deps := control_deps (default_graph s)\<rparr>,
               trace = trace s @ [ev]\<rparr>)"
  by (simp add: bind_def control_dependencies_def call_def Let_def split: prod.splits sum.splits)

lemma bind_lift:
  "bind (lift r) f s = (case r of Inl e \<Rightarrow> (Inl e, s) | Inr x \<Rightarrow> f x s)"
  by (simp add: bind_def lift_def split: sum.splits)

lemmas spec_simps = get_estimator_spec_def bind_call bind_in_graph bind_control_dependencies_call
  return_def raise_def lift_def Let_def get_or_create_global_step_def
  get_collection_UPDATE_OPS_def

lemma modes_distinct:
  "TRAIN \<noteq> EVAL" "TRAIN \<noteq> PREDICT" "EVAL \<noteq> PREDICT"
  "EVAL \<noteq> TRAIN" "PREDICT \<noteq> TRAIN" "PREDICT \<noteq> EVAL"
  by (simp_all add: TRAIN_def EVAL_def PREDICT_def)

lemmas inputs_simps = get_train_inputs_def get_train_inputs_defaults_def get_eval_inputs_def
  get_predict_inputs_def bind_call bind_lift return_def Let_def batch_size_def
  dataset_shuffle_def dataset_repeat_def dataset_batch_def

lemmas example_simps = example_builder_def example_state_def empty_graph_def

lemma example_framework_fields:
  "EstimatorSpec example_framework = example_EstimatorSpec"
  "iterator_get_next example_framework = (\<lambda>dataset. Tuple [Component dataset 0, Component dataset 1])"
  "file_dirname example_framework = ''/repo/model''"
  "Saver example_framework = (\<lambda>g. Inr ())"
  "MonitoredSession example_framework = (\<lambda>g. Inr 0)"
  "should_stop example_framework = (\<lambda>k. 2 \<le> k)"
  "session_run example_framework = (\<lambda>fetches k. (Inr (Tuple fetches), Suc k))"
  "latest_checkpoint example_framework = (\<lambda>dir. Some (dir @ ''/model.ckpt-100''))"
  by (simp_all add: example_framework_def)

section \<open>Estimator spec construction\<close>

text \<open>
  C1. Provided the subclass methods it calls return, \<open>get_estimator_spec\<close> dispatches on
  the mode, and what it returns is what the framework's constructor makes of the
  keyword arguments: the spec, or the error with which the constructor refuses them.
  In PREDICT mode the arguments are the mode and the predictions only, and the only
  methods called are \<open>get_inference\<close> and \<open>get_predictions\<close>: neither
  \<open>get_inference_loss\<close> nor \<open>get_train_op\<close> is invoked. In EVAL mode they are the
  mode, the predictions, the total loss and the result of
  \<open>get_eval_metric_ops predictions labels\<close>. In TRAIN mode they are the mode, the
  predictions, the total loss and the train op that \<open>get_train_op\<close> returned.
\<close>

theorem get_estimator_spec_dispatch:
  assumes inf: "get_inference self features mode (default_graph s) = (Inr inference, g1)"
    and prd: "get_predictions self inference g1 = (Inr predictions, g2)"
  shows "(mode = PREDICT \<longrightarrow>
            get_estimator_spec fw self features labels mode config s =
              (EstimatorSpec fw \<lparr>kw_mode = mode, kw_predictions = predictions,
                      kw_loss = None, kw_eval_metric_ops = None, kw_train_op = None\<rparr>,
               \<lparr>default_graph = g2,
                trace = trace s @ [Call_get_inference features mode,
                                   Call_get_predictions inference]\<rparr>))
       \<and> (mode = EVAL \<longrightarrow>
            get_inference_loss self inference labels g2 = (Inr inference_loss, g3) \<longrightarrow>
            get_total_loss inference_loss g3 = (loss, g4) \<longrightarrow>
            get_eval_metric_ops self predictions labels g4 = (Inr metric_ops, g5) \<longrightarrow>
            get_estimator_spec fw self features labels mode config s =
              (EstimatorSpec fw \<lparr>kw_mode = mode, kw_predictions = predictions,
                      kw_loss = Some loss, kw_eval_metric_ops = Some metric_ops,
                      kw_train_op = None\<rparr>,
               \<lparr>default_graph = g5,
                trace = trace s @ [Call_get_inference features mode,
                                   Call_get_predictions inference,
                                   Call_get_inference_loss inference labels,
                                   Call_get_eval_metric_ops predictions labels]\<rparr>))
       \<and> (mode = TRAIN \<longrightarrow>
            get_inference_loss self inference labels g2 = (Inr inference_loss, g3) \<longrightarrow>
            get_total_loss inference_loss g3 = (loss, g4) \<longrightarrow>
            get_train_op self loss GlobalStep
              (g4\<lparr>has_global_step := True,
                  control_deps := control_deps g4 @ UPDATE_OPS g4\<rparr>) = (Inr train_op, g5) \<longrightarrow>
            get_estimator_spec fw self features labels mode config s =
              (EstimatorSpec fw \<lparr>kw_mode = mode, kw_predictions = predictions,
                      kw_loss = Some loss, kw_eval_metric_ops = None,
                      kw_train_op = Some train_op\<rparr>,
               \<lparr>default_graph = g5\<lparr>control_deps := control_deps g4\<rparr>,
                trace = trace s @ [Call_get_inference features mode,
                                   Call_get_predictions inference,
                                   Call_get_inference_loss inference labels,
                                   Call_get_train_op loss GlobalStep]\<rparr>))"
proof (intro conjI impI)
  assume "mode = PREDICT"
  with inf prd show "get_estimator_spec fw self features labels mode config s =
              (EstimatorSpec fw \<lparr>kw_mode = mode, kw_predictions = predictions,
                      kw_loss = None, kw_eval_metric_ops = None, kw_train_op = None\<rparr>,
               \<lparr>default_graph = g2,
                trace = trace s @ [Call_get_inference features mode,
                                   Call_get_predictions inference]\<rparr>)"
    by (simp add: spec_simps)
next
  assume "mode = EVAL"
    and "get_inference_loss self inference labels g2 = (Inr inference_loss, g3)"
    and "get_total_loss inference_loss g3 = (loss, g4)"
    and "get_eval_metric_ops self predictions labels g4 = (Inr metric_ops, g5)"
  with inf prd show "get_estimator_spec fw self features labels mode config s =
              (EstimatorSpec fw \<lparr>kw_mode = mode, kw_predictions = predictions,
                      kw_loss = Some loss, kw_eval_metric_ops = Some metric_ops,
                      kw_train_op = None\<rparr>,
               \<lparr>default_graph = g5,
                trace = trace s @ [Call_get_inference features mode,
                                   Call_get_predictions inference,
                                   Call_get_inference_loss inference labels,
                                   Call_get_eval_metric_ops predictions labels]\<rparr>)"
    by (simp add: spec_simps modes_distinct)
next
  assume "mode = TRAIN"
    and "get_inference_loss self inference labels g2 = (Inr inference_loss, g3)"
    and "get_total_loss inference_loss g3 = (loss, g4)"
    and "get_train_op self loss GlobalStep
              (g4\<lparr>has_global_step := True,
                  control_deps := control_deps g4 @ UPDATE_OPS g4\<rparr>) = (Inr train_op, g5)"
  with inf prd show "get_estimator_spec fw self features labels mode config s =
              (EstimatorSpec fw \<lparr>kw_mode = mode, kw_predictions = predictions,
                      kw_loss = Some loss, kw_eval_metric_ops = None,
                      kw_train_op = Some train_op\<rparr>,
               \<lparr>default_graph = g5\<lparr>control_deps := control_deps g4\<rparr>,
                trace = trace s @ [Call_get_inference features mode,
                                   Call_get_predictions inference,
                                   Call_get_inference_loss inference labels,
                                   Call_get_train_op loss GlobalStep]\<rparr>)"
    by (simp add: spec_simps modes_distinct)
qed

text \<open>
  The dispatch on the example subclass, in each of the three modes: its predictions,
  loss and train op are accepted by the constructor, and a spec is returned.
\<close>

theorem get_estimator_spec_dispatch_witness:
  "fst (get_estimator_spec example_framework example_builder (Sym ''x'') (Sym ''y'') PREDICT PNone
          example_state) =
     Inr (SpecObject \<lparr>kw_mode = PREDICT, kw_predictions = Op ''logits'' [Sym ''x''] [],
            kw_loss = None, kw_eval_metric_ops = None, kw_train_op = None\<rparr>)
   \<and> trace (snd (get_estimator_spec example_framework example_builder (Sym ''x'') (Sym ''y'')
        PREDICT PNone example_state)) =
       [Call_get_inference (Sym ''x'') PREDICT, Call_get_predictions (Op ''logits'' [Sym ''x''] [])]
   \<and> fst (get_estimator_spec example_framework example_builder (Sym ''x'') (Sym ''y'') EVAL PNone
          example_state) =
     Inr (SpecObject \<lparr>kw_mode = EVAL, kw_predictions = Op ''logits'' [Sym ''x''] [],
            kw_loss = Some (TfAdd (Op ''cross_entropy'' [Op ''logits'' [Sym ''x''] [], Sym ''y''] [])
                                  (TfAddN [Sym ''l2''])),
            kw_eval_metric_ops = Some [], kw_train_op = None\<rparr>)
   \<and> fst (get_estimator_spec example_framework example_builder (Sym ''x'') (Sym ''y'') TRAIN PNone
          example_state) =
     Inr (SpecObject \<lparr>kw_mode = TRAIN, kw_predictions = Op ''logits'' [Sym ''x''] [],
            kw_loss = Some (TfAdd (Op ''cross_entropy'' [Op ''logits'' [Sym ''x''] [], Sym ''y''] [])
                                  (TfAddN [Sym ''l2''])),
            kw_eval_metric_ops = None,
            kw_train_op = Some (Op ''minimize''
              [TfAdd (Op ''cross_entropy'' [Op ''logits'' [Sym ''x''] [], Sym ''y''] [])
                     (TfAddN [Sym ''l2'']), GlobalStep]
              [Sym ''batch_norm_update''])\<rparr>)
   \<and> fst (get_estimator_spec example_framework
            (example_builder\<lparr>get_inference := (\<lambda>features mode g. (Inr PNone, g))\<rparr>)
            (Sym ''x'') (Sym ''y'') PREDICT PNone example_state) =
     Inl (ValueError ''Missing predictions.'')"
proof -
  let ?g1 = "empty_graph\<lparr>REGULARIZATION_LOSSES := [Sym ''l2''],
                UPDATE_OPS := [Sym ''batch_norm_update'']\<rparr>"
  let ?inf = "Op ''logits'' [Sym ''x''] []"
  let ?il = "Op ''cross_entropy'' [?inf, Sym ''y''] []"
  let ?loss = "TfAdd ?il (TfAddN [Sym ''l2''])"
  let ?g4 = "snd (get_total_loss ?il ?g1)"
  let ?none = "example_builder\<lparr>get_inference := (\<lambda>features mode g. (Inr PNone, g))\<rparr>"
  have n: "fst (get_estimator_spec example_framework ?none (Sym ''x'') (Sym ''y'') PREDICT PNone
             example_state) = Inl (ValueError ''Missing predictions.'')"
    using get_estimator_spec_dispatch [where self = ?none and features = "Sym ''x''"
        and labels = "Sym ''y''" and mode = PREDICT and s = example_state and config = PNone
        and inference = PNone and predictions = PNone and ?g1.0 = empty_graph
        and ?g2.0 = empty_graph and fw = example_framework]
    by (simp add: example_simps example_framework_fields example_EstimatorSpec_def modes_distinct)
  let ?top = "Op ''minimize'' [?loss, GlobalStep] [Sym ''batch_norm_update'']"
  have tl: "get_total_loss ?il ?g1 = (?loss, ?g4)"
    by (simp add: get_total_loss_def Let_def empty_graph_def)
  have g4: "control_deps ?g4 = []" "UPDATE_OPS ?g4 = [Sym ''batch_norm_update'']"
    by (simp_all add: get_total_loss_def Let_def empty_graph_def summary_scalar_def)
  have p: "get_estimator_spec example_framework example_builder (Sym ''x'') (Sym ''y'') PREDICT
             PNone example_state =
     (Inr (SpecObject \<lparr>kw_mode = PREDICT, kw_predictions = ?inf,
            kw_loss = None, kw_eval_metric_ops = None, kw_train_op = None\<rparr>),
      \<lparr>default_graph = ?g1, trace = trace example_state @
         [Call_get_inference (Sym ''x'') PREDICT, Call_get_predictions ?inf]\<rparr>)"
    using get_estimator_spec_dispatch [where self = example_builder and features = "Sym ''x''"
        and labels = "Sym ''y''" and mode = PREDICT and s = example_state and config = PNone
        and inference = ?inf and predictions = ?inf and ?g1.0 = ?g1 and ?g2.0 = ?g1
        and fw = example_framework]
    by (simp add: example_simps example_framework_fields example_EstimatorSpec_def modes_distinct)
  have e: "fst (get_estimator_spec example_framework example_builder (Sym ''x'') (Sym ''y'') EVAL
             PNone example_state) =
     Inr (SpecObject \<lparr>kw_mode = EVAL, kw_predictions = ?inf,
            kw_loss = Some ?loss, kw_eval_metric_ops = Some [], kw_train_op = None\<rparr>)"
    using get_estimator_spec_dispatch [where self = example_builder and features = "Sym ''x''"
        and labels = "Sym ''y''" and mode = EVAL and s = example_state and config = PNone
        and inference = ?inf and predictions = ?inf and ?g1.0 = ?g1 and ?g2.0 = ?g1
        and inference_loss = ?il and ?g3.0 = ?g1 and loss = ?loss and ?g4.0 = ?g4
        and metric_ops = "[]" and ?g5.0 = ?g4 and fw = example_framework] tl
    by (simp add: example_simps example_framework_fields example_EstimatorSpec_def modes_distinct)
  have t: "fst (get_estimator_spec example_framework example_builder (Sym ''x'') (Sym ''y'') TRAIN
             PNone example_state) =
     Inr (SpecObject \<lparr>kw_mode = TRAIN, kw_predictions = ?inf,
            kw_loss = Some ?loss, kw_eval_metric_ops = None, kw_train_op = Some ?top\<rparr>)"
    using get_estimator_spec_dispatch [where self = example_builder and features = "Sym ''x''"
        and labels = "Sym ''y''" and mode = TRAIN and s = example_state and config = PNone
        and inference = ?inf and predictions = ?inf and ?g1.0 = ?g1 and ?g2.0 = ?g1
        and inference_loss = ?il and ?g3.0 = ?g1 and loss = ?loss and ?g4.0 = ?g4
        and train_op = ?top
        and ?g5.0 = "?g4\<lparr>has_global_step := True,
                  control_deps := control_deps ?g4 @ UPDATE_OPS ?g4\<rparr>"
        and fw = example_framework] tl g4
    by (simp add: example_simps example_framework_fields example_EstimatorSpec_def modes_distinct)
  from p e t n show ?thesis
    by (simp add: example_state_def)
qed

text \<open>
  C8. For a mode that is none of PREDICT, EVAL and TRAIN, \<open>get_estimator_spec\<close> never
  returns an estimator spec, whatever the subclass methods and the framework do; and
  when the subclass methods it calls on the way (\<open>get_inference\<close>, \<open>get_predictions\<close>,
  \<open>get_inference_loss\<close>, \<open>get_train_op\<close>) return, it raises ValueError with the
  message "Unrecognized mode" followed by the mode.
\<close>

theorem unrecognized_mode_raises:
  assumes "mode \<noteq> PREDICT" and "mode \<noteq> EVAL" and "mode \<noteq> TRAIN"
  shows "(\<forall>spec. fst (get_estimator_spec fw self features labels mode config s) \<noteq> Inr spec)
       \<and> (get_inference self features mode (default_graph s) = (Inr inference, g1) \<longrightarrow>
          get_predictions self inference g1 = (Inr predictions, g2) \<longrightarrow>
          get_inference_loss self inference labels g2 = (Inr inference_loss, g3) \<longrightarrow>
          get_total_loss inference_loss g3 = (loss, g4) \<longrightarrow>
          get_train_op self loss GlobalStep
            (g4\<lparr>has_global_step := True,
                control_deps := control_deps g4 @ UPDATE_OPS g4\<rparr>) = (Inr train_op, g5) \<longrightarrow>
          fst (get_estimator_spec fw self features labels mode config s) =
            Inl (ValueError (''Unrecognized mode '' @ mode)))"
proof (intro conjI impI)
  from assms
  show "\<forall>spec. fst (get_estimator_spec fw self features labels mode config s) \<noteq> Inr spec"
    by (simp add: spec_simps split: prod.splits sum.splits)
next
  assume "get_inference self features mode (default_graph s) = (Inr inference, g1)"
    and "get_predictions self inference g1 = (Inr predictions, g2)"
    and "get_inference_loss self inference labels g2 = (Inr inference_loss, g3)"
    and "get_total_loss inference_loss g3 = (loss, g4)"
    and "get_train_op self loss GlobalStep
            (g4\<lparr>has_global_step := True,
                control_deps := control_deps g4 @ UPDATE_OPS g4\<rparr>) = (Inr train_op, g5)"
  with assms show "fst (get_estimator_spec fw self features labels mode config s) =
            Inl (ValueError (''Unrecognized mode '' @ mode))"
    by (simp add: spec_simps)
qed

text \<open>The mode "export" on the example subclass.\<close>

theorem unrecognized_mode_raises_witness:
  "''export'' \<noteq> PREDICT \<and> ''export'' \<noteq> EVAL \<and> ''export'' \<noteq> TRAIN
   \<and> fst (get_estimator_spec example_framework example_builder (Sym ''x'') (Sym ''y'') ''export''
            PNone example_state) =
       Inl (ValueError ''Unrecognized mode export'')"
proof -
  let ?g1 = "empty_graph\<lparr>REGULARIZATION_LOSSES := [Sym ''l2''],
                UPDATE_OPS := [Sym ''batch_norm_update'']\<rparr>"
  let ?inf = "Op ''logits'' [Sym ''x''] []"
  let ?il = "Op ''cross_entropy'' [?inf, Sym ''y''] []"
  let ?loss = "TfAdd ?il (TfAddN [Sym ''l2''])"
  let ?g4 = "snd (get_total_loss ?il ?g1)"
  have tl: "get_total_loss ?il ?g1 = (?loss, ?g4)"
    by (simp add: get_total_loss_def Let_def empty_graph_def)
  have g4: "control_deps ?g4 = []" "UPDATE_OPS ?g4 = [Sym ''batch_norm_update'']"
    by (simp_all add: get_total_loss_def Let_def empty_graph_def summary_scalar_def)
  have m: "''export'' \<noteq> PREDICT" "''export'' \<noteq> EVAL" "''export'' \<noteq> TRAIN"
    by (simp_all add: PREDICT_def EVAL_def TRAIN_def)
  have "fst (get_estimator_spec example_framework example_builder (Sym ''x'') (Sym ''y'')
          ''export'' PNone example_state) = Inl (ValueError (''Unrecognized mode '' @ ''export''))"
    using unrecognized_mode_raises [OF m, where self = example_builder and features = "Sym ''x''"
        and labels = "Sym ''y''" and s = example_state and config = PNone
        and inference = ?inf and predictions = ?inf and ?g1.0 = ?g1 and ?g2.0 = ?g1
        and inference_loss = ?il and ?g3.0 = ?g1 and loss = ?loss and ?g4.0 = ?g4
        and train_op = "Op ''minimize'' [?loss, GlobalStep] [Sym ''batch_norm_update'']"
        and ?g5.0 = "?g4\<lparr>has_global_step := True,
                  control_deps := control_deps ?g4 @ UPDATE_OPS ?g4\<rparr>"
        and fw = example_framework] tl g4
    by (simp add: example_simps)
  with m show ?thesis by simp
qed




section \<open>Total loss\<close>



section \<open>The abstract methods\<close>

text \<open>
  C5. In the base class each of \<open>get_inference\<close>, \<open>get_inference_loss\<close>,
  \<open>get_train_op\<close>, \<open>get_train_dataset\<close>, \<open>get_eval_dataset\<close> and
  \<open>get_predict_dataset\<close> raises NotImplementedError on every input and returns no
  value.
\<close>

theorem abstract_methods_raise:
  "get_inference (ModelBuilder mid ps) features mode g =
     (Inl (NotImplementedError ''Abstract method''), g)
   \<and> get_inference_loss (ModelBuilder mid ps) inference labels g =
     (Inl (NotImplementedError ''Abstract method''), g)
   \<and> get_train_op (ModelBuilder mid ps) loss step g =
     (Inl (NotImplementedError ''Abstract method''), g)
   \<and> get_train_dataset (ModelBuilder mid ps) g =
     (Inl (NotImplementedError ''Abstract method''), g)
   \<and> get_eval_dataset (ModelBuilder mid ps) g =
     (Inl (NotImplementedError ''Abstract method''), g)
   \<and> get_predict_dataset (ModelBuilder mid ps) g =
     (Inl (NotImplementedError ''Abstract method''), g)"
  by (simp add: ModelBuilder_def abstract_method_def)

section \<open>Inputs\<close>

text \<open>
  C3. \<open>get_inputs\<close> is meant to redirect to the input method of the mode. It does so
  for TRAIN only: with EVAL, and with the mode string of prediction, evaluating the
  second condition raises AttributeError (the misspelt \<^verbatim>\<open>tf.esitmator\<close>), so neither
  \<open>get_eval_inputs\<close> nor \<open>get_predict_inputs\<close> is ever reached.
\<close>

theorem get_inputs_eval_raises:
  "get_inputs fw self EVAL s = (Inl (AttributeError ''esitmator''), s)
   \<and> get_inputs fw self PREDICT s = (Inl (AttributeError ''esitmator''), s)"
  by (simp add: get_inputs_def modes_distinct bind_lift tf_esitmator_ModeKeys_def)





section \<open>Estimator wrappers\<close>

text \<open>
  C6. \<open>train\<close>, \<open>predict\<close> and \<open>eval\<close> each build the estimator from
  \<open>get_estimator_spec\<close>, the model directory and the configuration, and call its
  \<open>train\<close>, \<open>predict\<close> and \<open>evaluate\<close> with \<open>get_train_inputs\<close>,
  \<open>get_predict_inputs\<close> and \<open>get_eval_inputs\<close> as the input function; \<open>predict\<close>
  and \<open>eval\<close> return what the estimator returns, \<open>train\<close> returns \<^verbatim>\<open>None\<close>.
\<close>

theorem lifecycle_wrappers:
  "train fw self config train_kwargs =
     (case Estimator_train fw
             \<lparr>model_fn = get_estimator_spec fw self, est_model_dir = model_dir fw self,
              est_config = config\<rparr>
             (get_train_inputs_defaults fw self) train_kwargs of
        Inl e \<Rightarrow> Inl e
      | Inr r \<Rightarrow> Inr PNone)
   \<and> predict fw self config predict_kwargs =
       Estimator_predict fw
         \<lparr>model_fn = get_estimator_spec fw self, est_model_dir = model_dir fw self,
          est_config = config\<rparr>
         (get_predict_inputs fw self) predict_kwargs
   \<and> eval fw self config eval_kwargs =
       Estimator_evaluate fw
         \<lparr>model_fn = get_estimator_spec fw self, est_model_dir = model_dir fw self,
          est_config = config\<rparr>
         (get_eval_inputs fw self) eval_kwargs"
  by (simp add: train_def predict_def eval_def get_estimator_def)

section \<open>Visualisation loops\<close>

text \<open>
  A session that asks to stop after \<open>n\<close> batches, each batch and each callback
  succeeding, and no fetch being \<^verbatim>\<open>None\<close>: the loop makes exactly \<open>n\<close> rounds of one
  run followed by one callback on the data of that run.
\<close>

lemma vis_inputs_loop_rounds:
  assumes "\<And>i. i < n \<Longrightarrow> \<not> should_stop fw (S i)
             \<and> session_run fw [features, labels] (S i) = (Inr (Tuple [F i, L i]), S (Suc i))
             \<and> vis_example_data self (F i) (L i) = Inr ()"
    and "should_stop fw (S n)"
    and "features \<noteq> PNone" and "labels \<noteq> PNone"
  shows "vis_inputs_loop fw self (Some (features, labels)) (S 0) tr =
           Some (Inr (), S n,
             tr @ concat (map (\<lambda>i. [Session_run [features, labels],
                                      Call_vis_example_data (F i) (L i)]) [0..<n]))"
  using assms
proof (induction n arbitrary: S F L tr)
  case 0
  then show ?case
    by (subst vis_inputs_loop.simps) simp
next
  case (Suc n)
  have first: "\<not> should_stop fw (S 0)"
    "sess_run fw [features, labels] (S 0) = (Inr (Tuple [F 0, L 0]), S (Suc 0))"
    "vis_example_data self (F 0) (L 0) = Inr ()"
    using Suc.prems(1) [of 0] Suc.prems(3,4) by (simp_all add: sess_run_def)
  have rest: "vis_inputs_loop fw self (Some (features, labels)) (S (Suc 0))
        (tr @ [Session_run [features, labels], Call_vis_example_data (F 0) (L 0)]) =
      Some (Inr (), S (Suc n),
        (tr @ [Session_run [features, labels], Call_vis_example_data (F 0) (L 0)]) @
        concat (map (\<lambda>i. [Session_run [features, labels],
                            Call_vis_example_data (F (Suc i)) (L (Suc i))]) [0..<n]))"
    using Suc.IH [of "\<lambda>i. S (Suc i)" "\<lambda>i. F (Suc i)" "\<lambda>i. L (Suc i)"] Suc.prems
    by simp
  show ?case
    by (subst vis_inputs_loop.simps)
       (simp add: first rest local_variables_def map_upt_Suc del: upt_Suc)
qed

lemma vis_predictions_loop_rounds:
  assumes "\<And>i. i < n \<Longrightarrow> \<not> should_stop fw (S i)
             \<and> session_run fw [predictions, features, labels] (S i) =
                 (Inr (Tuple [P i, F i, L i]), S (Suc i))
             \<and> vis_prediction_data self (P i) (F i) (L i) = Inr ()"
    and "should_stop fw (S n)"
    and "predictions \<noteq> PNone" and "features \<noteq> PNone" and "labels \<noteq> PNone"
  shows "vis_predictions_loop fw self predictions features labels (S 0) tr =
           Some (Inr (), S n,
             tr @ concat (map (\<lambda>i. [Session_run [predictions, features, labels],
                                      Call_vis_prediction_data (P i) (F i) (L i)]) [0..<n]))"
  using assms
proof (induction n arbitrary: S P F L tr)
  case 0
  then show ?case
    by (subst vis_predictions_loop.simps) simp
next
  case (Suc n)
  have first: "\<not> should_stop fw (S 0)"
    "sess_run fw [predictions, features, labels] (S 0) =
       (Inr (Tuple [P 0, F 0, L 0]), S (Suc 0))"
    "vis_prediction_data self (P 0) (F 0) (L 0) = Inr ()"
    using Suc.prems(1) [of 0] Suc.prems(3,4,5) by (simp_all add: sess_run_def)
  have rest: "vis_predictions_loop fw self predictions features labels (S (Suc 0))
        (tr @ [Session_run [predictions, features, labels],
               Call_vis_prediction_data (P 0) (F 0) (L 0)]) =
      Some (Inr (), S (Suc n),
        (tr @ [Session_run [predictions, features, labels],
               Call_vis_prediction_data (P 0) (F 0) (L 0)]) @
        concat (map (\<lambda>i. [Session_run [predictions, features, labels],
                            Call_vis_prediction_data (P (Suc i)) (F (Suc i)) (L (Suc i))])
                    [0..<n]))"
    using Suc.IH [of "\<lambda>i. S (Suc i)" "\<lambda>i. P (Suc i)" "\<lambda>i. F (Suc i)" "\<lambda>i. L (Suc i)"]
      Suc.prems
    by simp
  show ?case
    by (subst vis_predictions_loop.simps)
       (simp add: first rest map_upt_Suc del: upt_Suc)
qed

text \<open>
  What the two methods do when every fetch is a tensor, as in TRAIN mode with a
  dataset of pairs: \<open>vis_inputs\<close> runs one batch and passes its data to
  \<open>vis_example_data\<close>, again and again until the session says it should stop;
  \<open>vis_predictions\<close> first restores from the latest checkpoint of the model
  directory and only then does the same with \<open>vis_prediction_data\<close>.
\<close>

lemma visualisation_loops_with_tensor_fetches:
  assumes inputs: "vis_bind_inputs fw self mode (s\<lparr>default_graph := empty_graph\<rparr>) =
                     (Inr (Some (features, labels)), s1)"
    and tensors: "features \<noteq> PNone" "labels \<noteq> PNone"
  shows "(MonitoredSession fw (default_graph s1) = Inr (S 0) \<longrightarrow>
          (\<forall>i<n. \<not> should_stop fw (S i)
             \<and> session_run fw [features, labels] (S i) = (Inr (Tuple [F i, L i]), S (Suc i))
             \<and> vis_example_data self (F i) (L i) = Inr ()) \<longrightarrow>
          should_stop fw (S n) \<longrightarrow>
          vis_inputs fw self mode s =
            Some (Inr (),
              \<lparr>default_graph = default_graph s,
               trace = trace s1 @
                 concat (map (\<lambda>i. [Session_run [features, labels],
                                    Call_vis_example_data (F i) (L i)]) [0..<n])\<rparr>))
       \<and> (get_estimator_spec fw self features labels PREDICT PNone s1 =
            (Inr (SpecObject kwargs), s2) \<longrightarrow>
          kw_predictions kwargs \<noteq> PNone \<longrightarrow>
          Saver fw (default_graph s2) = Inr () \<longrightarrow>
          MonitoredSession fw (default_graph s2) = Inr sess \<longrightarrow>
          saver_restore fw (latest_checkpoint fw (model_dir fw self)) sess = (Inr (), S 0) \<longrightarrow>
          (\<forall>i<n. \<not> should_stop fw (S i)
             \<and> session_run fw [kw_predictions kwargs, features, labels] (S i) =
                 (Inr (Tuple [P i, F i, L i]), S (Suc i))
             \<and> vis_prediction_data self (P i) (F i) (L i) = Inr ()) \<longrightarrow>
          should_stop fw (S n) \<longrightarrow>
          vis_predictions fw self mode s =
            Some (Inr (),
              \<lparr>default_graph = default_graph s,
               trace = trace s2 @
                 Saver_restore (latest_checkpoint fw (model_dir fw self)) #
                 concat (map (\<lambda>i. [Session_run [kw_predictions kwargs, features, labels],
                                    Call_vis_prediction_data (P i) (F i) (L i)]) [0..<n])\<rparr>))"
proof (intro conjI impI)
  assume sess: "MonitoredSession fw (default_graph s1) = Inr (S 0)"
    and rounds: "\<forall>i<n. \<not> should_stop fw (S i)
             \<and> session_run fw [features, labels] (S i) = (Inr (Tuple [F i, L i]), S (Suc i))
             \<and> vis_example_data self (F i) (L i) = Inr ()"
    and stop: "should_stop fw (S n)"
  have loop: "vis_inputs_loop fw self (Some (features, labels)) (S 0) (trace s1) =
           Some (Inr (), S n,
             trace s1 @ concat (map (\<lambda>i. [Session_run [features, labels],
                                      Call_vis_example_data (F i) (L i)]) [0..<n]))"
    using rounds stop tensors by (intro vis_inputs_loop_rounds) simp_all
  show "vis_inputs fw self mode s =
            Some (Inr (),
              \<lparr>default_graph = default_graph s,
               trace = trace s1 @
                 concat (map (\<lambda>i. [Session_run [features, labels],
                                    Call_vis_example_data (F i) (L i)]) [0..<n])\<rparr>)"
    by (simp add: vis_inputs_def Let_def inputs sess loop session_exit_def)
next
  assume spec: "get_estimator_spec fw self features labels PREDICT PNone s1 =
            (Inr (SpecObject kwargs), s2)"
    and pred: "kw_predictions kwargs \<noteq> PNone"
    and saver: "Saver fw (default_graph s2) = Inr ()"
    and sess: "MonitoredSession fw (default_graph s2) = Inr sess"
    and restore: "saver_restore fw (latest_checkpoint fw (model_dir fw self)) sess = (Inr (), S 0)"
    and rounds: "\<forall>i<n. \<not> should_stop fw (S i)
             \<and> session_run fw [kw_predictions kwargs, features, labels] (S i) =
                 (Inr (Tuple [P i, F i, L i]), S (Suc i))
             \<and> vis_prediction_data self (P i) (F i) (L i) = Inr ()"
    and stop: "should_stop fw (S n)"
  let ?tr = "trace s2 @ [Saver_restore (latest_checkpoint fw (model_dir fw self))]"
  have loop: "vis_predictions_loop fw self (kw_predictions kwargs) features labels (S 0) ?tr =
           Some (Inr (), S n,
             ?tr @ concat (map (\<lambda>i. [Session_run [kw_predictions kwargs, features, labels],
                                      Call_vis_prediction_data (P i) (F i) (L i)]) [0..<n]))"
    using rounds stop tensors pred by (intro vis_predictions_loop_rounds) simp_all
  have prep: "bind (vis_bind_inputs fw self mode)
             (\<lambda>inputs.
           bind (lift (local_variables inputs))
             (\<lambda>(features, labels).
           bind (get_estimator_spec fw self features labels PREDICT PNone)
             (\<lambda>spec.
           let predictions = spec_predictions spec in
           bind (\<lambda>s'. (Saver fw (default_graph s'), s'))
             (\<lambda>saver.
           return (predictions, features, labels)))))
             (s\<lparr>default_graph := empty_graph\<rparr>) =
         (Inr (kw_predictions kwargs, features, labels), s2)"
    by (simp add: bind_def inputs lift_def local_variables_def spec saver Let_def
          spec_predictions_def return_def)
  show "vis_predictions fw self mode s =
            Some (Inr (),
              \<lparr>default_graph = default_graph s,
               trace = trace s2 @
                 Saver_restore (latest_checkpoint fw (model_dir fw self)) #
                 concat (map (\<lambda>i. [Session_run [kw_predictions kwargs, features, labels],
                                    Call_vis_prediction_data (P i) (F i) (L i)]) [0..<n])\<rparr>)"
    unfolding vis_predictions_def prep
    by (simp add: Let_def sess restore loop session_exit_def)
qed

text \<open>The labels that \<open>get_predict_inputs\<close> returns are \<^verbatim>\<open>None\<close>.\<close>

lemma get_predict_inputs_labels:
  "get_predict_inputs fw self s = (Inr (features, labels), s') \<Longrightarrow> labels = PNone"
  by (auto simp add: inputs_simps split: prod.splits sum.splits option.splits if_splits)

text \<open>
  C7. The two methods are meant to run one batch and pass its data to the
  visualisation callback until the session says it should stop, \<open>vis_predictions\<close>
  after restoring from the latest checkpoint of the model directory. In PREDICT mode
  they do not: the labels bound are \<^verbatim>\<open>None\<close>, the first \<^verbatim>\<open>sess.run\<close> of the loop is
  given a fetch list that contains it and raises TypeError, and neither
  \<open>vis_example_data\<close> nor \<open>vis_prediction_data\<close> is ever called. The restore of
  \<open>vis_predictions\<close> does come before that first run.
\<close>

theorem visualisation_predict_mode_raises:
  assumes inputs: "get_predict_inputs fw self (s\<lparr>default_graph := empty_graph\<rparr>) =
                     (Inr (features, labels), s1)"
  shows "(MonitoredSession fw (default_graph s1) = Inr sess \<longrightarrow>
          \<not> should_stop fw sess \<longrightarrow>
          vis_inputs fw self PREDICT s =
            Some (session_exit fw (Inl (TypeError ''Fetch argument None'')),
              \<lparr>default_graph = default_graph s,
               trace = trace s1 @ [Session_run [features, PNone]]\<rparr>))
       \<and> (get_estimator_spec fw self features labels PREDICT PNone s1 = (Inr spec, s2) \<longrightarrow>
          Saver fw (default_graph s2) = Inr () \<longrightarrow>
          MonitoredSession fw (default_graph s2) = Inr sess \<longrightarrow>
          saver_restore fw (latest_checkpoint fw (model_dir fw self)) sess = (Inr (), sess') \<longrightarrow>
          \<not> should_stop fw sess' \<longrightarrow>
          vis_predictions fw self PREDICT s =
            Some (session_exit fw (Inl (TypeError ''Fetch argument None'')),
              \<lparr>default_graph = default_graph s,
               trace = trace s2 @
                 [Saver_restore (latest_checkpoint fw (model_dir fw self)),
                  Session_run [spec_predictions spec, features, PNone]]\<rparr>))"
proof -
  have none: "labels = PNone"
    using inputs by (rule get_predict_inputs_labels)
  have bound: "vis_bind_inputs fw self PREDICT (s\<lparr>default_graph := empty_graph\<rparr>) =
                 (Inr (Some (features, PNone)), s1)"
    using inputs none by (simp add: vis_bind_inputs_def bind_def return_def)
  show ?thesis
  proof (intro conjI impI)
    assume sess: "MonitoredSession fw (default_graph s1) = Inr sess"
      and go: "\<not> should_stop fw sess"
    have loop: "vis_inputs_loop fw self (Some (features, PNone)) sess (trace s1) =
        Some (Inl (TypeError ''Fetch argument None''), sess,
              trace s1 @ [Session_run [features, PNone]])"
      using go by (subst vis_inputs_loop.simps) (simp add: local_variables_def sess_run_def)
    show "vis_inputs fw self PREDICT s =
            Some (session_exit fw (Inl (TypeError ''Fetch argument None'')),
              \<lparr>default_graph = default_graph s,
               trace = trace s1 @ [Session_run [features, PNone]]\<rparr>)"
      by (simp add: vis_inputs_def Let_def bound sess loop)
  next
    assume spec: "get_estimator_spec fw self features labels PREDICT PNone s1 = (Inr spec, s2)"
      and saver: "Saver fw (default_graph s2) = Inr ()"
      and sess: "MonitoredSession fw (default_graph s2) = Inr sess"
      and restore: "saver_restore fw (latest_checkpoint fw (model_dir fw self)) sess =
                      (Inr (), sess')"
      and go: "\<not> should_stop fw sess'"
    let ?tr = "trace s2 @ [Saver_restore (latest_checkpoint fw (model_dir fw self))]"
    have loop: "vis_predictions_loop fw self (spec_predictions spec) features PNone sess' ?tr =
        Some (Inl (TypeError ''Fetch argument None''), sess',
              ?tr @ [Session_run [spec_predictions spec, features, PNone]])"
      using go by (subst vis_predictions_loop.simps) (simp add: sess_run_def)
    have prep: "bind (vis_bind_inputs fw self PREDICT)
               (\<lambda>inputs.
             bind (lift (local_variables inputs))
               (\<lambda>(features, labels).
             bind (get_estimator_spec fw self features labels PREDICT PNone)
               (\<lambda>spec.
             let predictions = spec_predictions spec in
             bind (\<lambda>s'. (Saver fw (default_graph s'), s'))
               (\<lambda>saver.
             return (predictions, features, labels)))))
               (s\<lparr>default_graph := empty_graph\<rparr>) =
           (Inr (spec_predictions spec, features, PNone), s2)"
      using spec none
      by (simp add: bind_def bound lift_def local_variables_def saver Let_def return_def)
    show "vis_predictions fw self PREDICT s =
            Some (session_exit fw (Inl (TypeError ''Fetch argument None'')),
              \<lparr>default_graph = default_graph s,
               trace = trace s2 @
                 [Saver_restore (latest_checkpoint fw (model_dir fw self)),
                  Session_run [spec_predictions spec, features, PNone]]\<rparr>)"
      unfolding vis_predictions_def prep
      by (simp add: Let_def sess restore loop)
  qed
qed

text \<open>
  Both methods on the example subclass in PREDICT mode, with the session that would
  stop after two batches: TypeError at the first run, and no callback in the trace.
\<close>

theorem visualisation_predict_mode_raises_witness:
  "vis_inputs example_framework example_builder PREDICT example_state =
     Some (Inl (TypeError ''Fetch argument None''),
       \<lparr>default_graph = empty_graph,
        trace = [Call_get_predict_dataset,
                 Session_run [Tuple [Component (Batch 32 (Source ''predict'')) 0,
                                     Component (Batch 32 (Source ''predict'')) 1], PNone]]\<rparr>)
   \<and> vis_predictions example_framework example_builder PREDICT example_state =
     Some (Inl (TypeError ''Fetch argument None''),
       \<lparr>default_graph = empty_graph,
        trace = [Call_get_predict_dataset,
                 Call_get_inference (Tuple [Component (Batch 32 (Source ''predict'')) 0,
                                            Component (Batch 32 (Source ''predict'')) 1]) PREDICT,
                 Call_get_predictions
                   (Op ''logits'' [Tuple [Component (Batch 32 (Source ''predict'')) 0,
                                          Component (Batch 32 (Source ''predict'')) 1]] []),
                 Saver_restore (Some ''/repo/model/estimator/mnist/model.ckpt-100''),
                 Session_run
                   [Op ''logits'' [Tuple [Component (Batch 32 (Source ''predict'')) 0,
                                          Component (Batch 32 (Source ''predict'')) 1]] [],
                    Tuple [Component (Batch 32 (Source ''predict'')) 0,
                           Component (Batch 32 (Source ''predict'')) 1],
                    PNone]]\<rparr>)"
proof -
  let ?f = "Tuple [Component (Batch 32 (Source ''predict'')) 0,
                   Component (Batch 32 (Source ''predict'')) 1]"
  let ?p = "Op ''logits'' [?f] []"
  let ?s1 = "\<lparr>default_graph = empty_graph, trace = [Call_get_predict_dataset]\<rparr>"
  let ?kw = "\<lparr>kw_mode = PREDICT, kw_predictions = ?p, kw_loss = None,
               kw_eval_metric_ops = None, kw_train_op = None\<rparr>"
  let ?s2 = "\<lparr>default_graph = empty_graph\<lparr>REGULARIZATION_LOSSES := [Sym ''l2''],
                 UPDATE_OPS := [Sym ''batch_norm_update'']\<rparr>,
               trace = [Call_get_predict_dataset, Call_get_inference ?f PREDICT,
                        Call_get_predictions ?p]\<rparr>"
  have inputs: "get_predict_inputs example_framework example_builder
                  (example_state\<lparr>default_graph := empty_graph\<rparr>) = (Inr (?f, PNone), ?s1)"
    by (simp add: inputs_simps example_builder_def example_framework_fields example_state_def
          int64_def)
  have spec: "get_estimator_spec example_framework example_builder ?f PNone PREDICT PNone ?s1 =
                (Inr (SpecObject ?kw), ?s2)"
    by (simp add: spec_simps example_simps example_framework_fields example_EstimatorSpec_def
          modes_distinct)
  have dir: "latest_checkpoint example_framework (model_dir example_framework example_builder) =
               Some ''/repo/model/estimator/mnist/model.ckpt-100''"
    by (simp add: example_framework_fields example_builder_def model_dir_def estimator_dir_def
          os_path_join_def)
  have exit: "session_exit example_framework (Inl (TypeError ''Fetch argument None'')) =
                Inl (TypeError ''Fetch argument None'')"
    by (simp add: session_exit_def example_framework_def)
  have restore: "saver_restore example_framework (Some ''/repo/model/estimator/mnist/model.ckpt-100'')
                   0 = (Inr (), 0)"
    by (simp add: example_framework_def)
  show ?thesis
    using visualisation_predict_mode_raises [OF inputs, where sess = 0 and sess' = 0
        and spec = "SpecObject ?kw" and ?s2.0 = ?s2] spec dir exit restore
    by (simp add: example_framework_fields example_state_def spec_predictions_def)
qed

text \<open>
  The same two methods in TRAIN mode, where every fetch is a tensor: two rounds each,
  the restore first.
\<close>

lemma visualisation_train_mode_example:
  "vis_inputs example_framework example_builder TRAIN example_state =
     Some (Inr (),
       \<lparr>default_graph = empty_graph,
        trace = [Call_get_train_dataset,
                 Session_run [Component (Batch 32 (Repeat None (Shuffle 10000 (Source ''train'')))) 0,
                              Component (Batch 32 (Repeat None (Shuffle 10000 (Source ''train'')))) 1],
                 Call_vis_example_data
                   (Component (Batch 32 (Repeat None (Shuffle 10000 (Source ''train'')))) 0)
                   (Component (Batch 32 (Repeat None (Shuffle 10000 (Source ''train'')))) 1),
                 Session_run [Component (Batch 32 (Repeat None (Shuffle 10000 (Source ''train'')))) 0,
                              Component (Batch 32 (Repeat None (Shuffle 10000 (Source ''train'')))) 1],
                 Call_vis_example_data
                   (Component (Batch 32 (Repeat None (Shuffle 10000 (Source ''train'')))) 0)
                   (Component (Batch 32 (Repeat None (Shuffle 10000 (Source ''train'')))) 1)]\<rparr>)
   \<and> vis_predictions example_framework example_builder TRAIN example_state =
     Some (Inr (),
       \<lparr>default_graph = empty_graph,
        trace = [Call_get_train_dataset,
                 Call_get_inference
                   (Component (Batch 32 (Repeat None (Shuffle 10000 (Source ''train'')))) 0) PREDICT,
                 Call_get_predictions
                   (Op ''logits''
                     [Component (Batch 32 (Repeat None (Shuffle 10000 (Source ''train'')))) 0] []),
                 Saver_restore (Some ''/repo/model/estimator/mnist/model.ckpt-100''),
                 Session_run
                   [Op ''logits''
                      [Component (Batch 32 (Repeat None (Shuffle 10000 (Source ''train'')))) 0] [],
                    Component (Batch 32 (Repeat None (Shuffle 10000 (Source ''train'')))) 0,
                    Component (Batch 32 (Repeat None (Shuffle 10000 (Source ''train'')))) 1],
                 Call_vis_prediction_data
                   (Op ''logits''
                      [Component (Batch 32 (Repeat None (Shuffle 10000 (Source ''train'')))) 0] [])
                   (Component (Batch 32 (Repeat None (Shuffle 10000 (Source ''train'')))) 0)
                   (Component (Batch 32 (Repeat None (Shuffle 10000 (Source ''train'')))) 1),
                 Session_run
                   [Op ''logits''
                      [Component (Batch 32 (Repeat None (Shuffle 10000 (Source ''train'')))) 0] [],
                    Component (Batch 32 (Repeat None (Shuffle 10000 (Source ''train'')))) 0,
                    Component (Batch 32 (Repeat None (Shuffle 10000 (Source ''train'')))) 1],
                 Call_vis_prediction_data
                   (Op ''logits''
                      [Component (Batch 32 (Repeat None (Shuffle 10000 (Source ''train'')))) 0] [])
                   (Component (Batch 32 (Repeat None (Shuffle 10000 (Source ''train'')))) 0)
                   (Component (Batch 32 (Repeat None (Shuffle 10000 (Source ''train'')))) 1)]\<rparr>)"
proof -
  let ?ds = "Batch 32 (Repeat None (Shuffle 10000 (Source ''train'')))"
  let ?f = "Component ?ds 0"
  let ?l = "Component ?ds 1"
  let ?p = "Op ''logits'' [?f] []"
  let ?s1 = "\<lparr>default_graph = empty_graph, trace = [Call_get_train_dataset]\<rparr>"
  let ?kw = "\<lparr>kw_mode = PREDICT, kw_predictions = ?p, kw_loss = None,
               kw_eval_metric_ops = None, kw_train_op = None\<rparr>"
  let ?s2 = "\<lparr>default_graph = empty_graph\<lparr>REGULARIZATION_LOSSES := [Sym ''l2''],
                 UPDATE_OPS := [Sym ''batch_norm_update'']\<rparr>,
               trace = [Call_get_train_dataset, Call_get_inference ?f PREDICT,
                        Call_get_predictions ?p]\<rparr>"
  have inputs: "vis_bind_inputs example_framework example_builder TRAIN
                  (example_state\<lparr>default_graph := empty_graph\<rparr>) = (Inr (Some (?f, ?l)), ?s1)"
  proof -
    have "get_train_inputs_defaults example_framework example_builder
            (example_state\<lparr>default_graph := empty_graph\<rparr>) = (Inr (?f, ?l), ?s1)"
      by (simp add: inputs_simps example_builder_def example_framework_fields example_state_def
            int64_def)
    then show ?thesis
      by (simp add: vis_bind_inputs_def modes_distinct bind_def return_def)
  qed
  have spec: "get_estimator_spec example_framework example_builder ?f ?l PREDICT PNone ?s1 =
                (Inr (SpecObject ?kw), ?s2)"
    by (simp add: spec_simps example_simps example_framework_fields example_EstimatorSpec_def
          modes_distinct)
  have dir: "latest_checkpoint example_framework (model_dir example_framework example_builder) =
               Some ''/repo/model/estimator/mnist/model.ckpt-100''"
    by (simp add: example_framework_fields example_builder_def model_dir_def estimator_dir_def
          os_path_join_def)
  have restore: "saver_restore example_framework (Some ''/repo/model/estimator/mnist/model.ckpt-100'')
                   0 = (Inr (), 0)"
    by (simp add: example_framework_def)
  have two: "[0..<2] = [0, Suc 0]"
    by (simp add: upt_conv_Cons)
  show ?thesis
    using visualisation_loops_with_tensor_fetches [OF inputs, where S = "\<lambda>i. i" and n = 2
        and F = "\<lambda>i. ?f" and L = "\<lambda>i. ?l" and P = "\<lambda>i. ?p" and kwargs = ?kw
        and ?s2.0 = ?s2 and sess = 0]
      spec dir restore
    by (simp add: example_framework_fields example_builder_def example_state_def two)
qed

end
